theory Spec2Isabelle
  imports Complex_Main "HOL-Library.AList"
begin

section \<open>Python values, exceptions and strings\<close>

text \<open>
  The scraper is Python. Its exceptions are values of \<open>exn\<close>: every constructor stands
  for a subclass of \<open>Exception\<close>, so each of them is caught by \<open>except Exception\<close>.
  \<open>SessionError\<close> carries whatever the browser automation library raises (timeouts,
  missing selectors, a closed page), \<open>OSError\<close> what the file system raises.
\<close>

datatype exn =
    IndexError
  | KeyError
  | AttributeError
  | ValueError
  | TypeError
  | OSError string
  | SessionError string

text \<open>
  The values \<open>json.loads\<close> can return, and so the values a record field can hold.
  A dictionary is an association list read with \<open>map_of\<close>.
\<close>

datatype pyval =
    PNone
  | PBool bool
  | PInt int
  | PFloat real
  | PStr string
  | PList "pyval list"
  | PDict "(string \<times> pyval) list"

text \<open>
  Text is modelled over the code points below 256, one \<^typ>\<open>char\<close> per code point.
  \<open>is_space\<close> lists the code points below 256 for which \<open>str.isspace\<close> holds; they
  are what \<open>strip()\<close> and \<open>split()\<close> without arguments remove.
\<close>

definition is_space :: "char \<Rightarrow> bool" where
  "is_space c = (of_char c \<in> set [9, 10, 11, 12, 13, 28, 29, 30, 31, 32, 133, 160 :: nat])"

definition py_strip :: "string \<Rightarrow> string" where
  "py_strip s = rev (dropWhile is_space (rev (dropWhile is_space s)))"

fun split_acc :: "string \<Rightarrow> string \<Rightarrow> string list" where
  "split_acc w [] = (if w = [] then [] else [w])"
| "split_acc w (c # cs) =
     (if is_space c then (if w = [] then split_acc [] cs else w # split_acc [] cs)
      else split_acc (w @ [c]) cs)"

definition py_split :: "string \<Rightarrow> string list" where
  "py_split s = split_acc [] s"

fun py_join :: "string \<Rightarrow> string list \<Rightarrow> string" where
  "py_join sep [] = []"
| "py_join sep [w] = w"
| "py_join sep (w # v # ws) = w @ sep @ py_join sep (v # ws)"

fun py_in :: "string \<Rightarrow> string \<Rightarrow> bool" where
  "py_in sub [] = (sub = [])"
| "py_in sub (c # cs) = (take (length sub) (c # cs) = sub \<or> py_in sub cs)"

definition dict_get :: "(string \<times> pyval) list \<Rightarrow> string \<Rightarrow> pyval \<Rightarrow> pyval" where
  "dict_get d k dflt = (case map_of d k of Some v \<Rightarrow> v | None \<Rightarrow> dflt)"

section \<open>The parsed page\<close>

text \<open>
  \<open>BeautifulSoup(content, 'html.parser')\<close> yields a tree of tags and text nodes; the
  soup itself is the root tag. An attribute dictionary is an association list; the
  \<open>class\<close> attribute is matched token by token, as the library does for it.
\<close>

datatype node =
    Tag string "(string \<times> string) list" "node list"
  | NavigableString string

fun descendants :: "node \<Rightarrow> node list" where
  "descendants (Tag n a cs) = concat (map (\<lambda>c. c # descendants c) cs)"
| "descendants (NavigableString s) = []"

fun is_tag :: "string \<Rightarrow> node \<Rightarrow> bool" where
  "is_tag nm (Tag n a cs) = (n = nm)"
| "is_tag nm (NavigableString s) = False"

fun contents :: "node \<Rightarrow> node list" where
  "contents (Tag n a cs) = cs"
| "contents (NavigableString s) = []"

fun attr :: "node \<Rightarrow> string \<Rightarrow> string option" where
  "attr (Tag n a cs) k = map_of a k"
| "attr (NavigableString s) k = None"

fun text_of :: "node \<Rightarrow> string" where
  "text_of (Tag n a cs) = concat (map text_of cs)"
| "text_of (NavigableString s) = s"

definition find_all :: "string \<Rightarrow> node \<Rightarrow> node list" where
  "find_all nm t = filter (is_tag nm) (descendants t)"

definition find_all_direct :: "string \<Rightarrow> node \<Rightarrow> node list" where
  "find_all_direct nm t = filter (is_tag nm) (contents t)"

definition find_first :: "string \<Rightarrow> node \<Rightarrow> node option" where
  "find_first nm t = (case find_all nm t of [] \<Rightarrow> None | x # _ \<Rightarrow> Some x)"

definition has_class :: "string \<Rightarrow> node \<Rightarrow> bool" where
  "has_class c t = (case attr t ''class'' of None \<Rightarrow> False | Some v \<Rightarrow> c \<in> set (py_split v))"

definition find_table :: "node \<Rightarrow> node option" where
  "find_table soup =
     (case filter (has_class ''DataGrid'') (find_all ''table'' soup) of
        [] \<Rightarrow> None | x # _ \<Rightarrow> Some x)"

section \<open>Result-table parser\<close>

type_synonym permit = "(string \<times> pyval) list"

text \<open>
  Lines 58 to 67 of \<open>parse_results_table\<close>: the scan of the options of the first cell's
  selection control. \<open>loads\<close> is \<open>json.loads\<close> on a string, \<open>None\<close> where it raises
  \<open>JSONDecodeError\<close>. A missing \<open>value\<close> attribute raises \<open>KeyError\<close>; both are caught
  and the scan goes on. \<open>.get\<close> on a decoded value that is not a dictionary raises
  \<open>AttributeError\<close>, which the handler does not name.
\<close>

fun scan_options :: "(string \<Rightarrow> pyval option) \<Rightarrow> node list \<Rightarrow> pyval \<Rightarrow> exn + pyval" where
  "scan_options loads [] plat_link = Inr plat_link"
| "scan_options loads (option # rest) plat_link =
     (if py_in ''Images'' (text_of option) then
        (case attr option ''value'' of
           None \<Rightarrow> scan_options loads rest plat_link
         | Some v \<Rightarrow>
             (case loads v of
                None \<Rightarrow> scan_options loads rest plat_link
              | Some (PDict d) \<Rightarrow> scan_options loads rest (dict_get d ''url'' (PStr ''''))
              | Some _ \<Rightarrow> Inl AttributeError))
      else scan_options loads rest plat_link)"

definition plat_link_of :: "(string \<Rightarrow> pyval option) \<Rightarrow> node \<Rightarrow> exn + pyval" where
  "plat_link_of loads cell =
     (case find_first ''select'' cell of
        None \<Rightarrow> Inr (PStr '''')
      | Some links_select \<Rightarrow> scan_options loads (find_all ''option'' links_select) (PStr ''''))"

definition cell_text :: "node \<Rightarrow> string" where
  "cell_text c =
     (let text_content =
        py_strip (map (\<lambda>x. if x = char_of (160::nat) then CHR '' '' else x)
          (filter (\<lambda>x. x \<noteq> char_of (13::nat))
            (map (\<lambda>x. if x = char_of (10::nat) then CHR '' '' else x) (py_strip (text_of c)))))
      in py_join '' '' (py_split text_content))"

text \<open>Lines 70 to 72: \<open>cols[i]\<close> raises \<open>IndexError\<close> when the row has no cell \<open>i\<close>.\<close>

fun fill_cells :: "node list \<Rightarrow> nat \<Rightarrow> string list \<Rightarrow> permit \<Rightarrow> exn + permit" where
  "fill_cells cols i [] permit_data = Inr permit_data"
| "fill_cells cols i (header # hs) permit_data =
     (if i < length cols
      then fill_cells cols (Suc i) hs (AList.update header (PStr (cell_text (cols ! i))) permit_data)
      else Inl IndexError)"

text \<open>Lines 49 to 74, one data row: \<open>None\<close> is the \<open>continue\<close> of a row without cells.\<close>

definition parse_row :: "(string \<Rightarrow> pyval option) \<Rightarrow> string list \<Rightarrow> node \<Rightarrow> exn + permit option" where
  "parse_row loads headers row =
     (case find_all ''td'' row of
        [] \<Rightarrow> Inr None
      | c0 # cs \<Rightarrow>
          (let api_no = (case find_first ''a'' c0 of Some a \<Rightarrow> py_strip (text_of a) | None \<Rightarrow> '''')
           in case plat_link_of loads c0 of
                Inl e \<Rightarrow> Inl e
              | Inr plat_link \<Rightarrow>
                  (case fill_cells (c0 # cs) 1 (drop 2 headers)
                          (AList.update ''PlatLink'' plat_link
                             (AList.update ''API NO.'' (PStr api_no) [])) of
                     Inl e \<Rightarrow> Inl e
                   | Inr permit_data \<Rightarrow> Inr (Some permit_data))))"

fun parse_rows :: "(string \<Rightarrow> pyval option) \<Rightarrow> string list \<Rightarrow> node list \<Rightarrow> permit list \<Rightarrow> exn + permit list" where
  "parse_rows loads headers [] permits_on_page = Inr permits_on_page"
| "parse_rows loads headers (row # rows) permits_on_page =
     (case parse_row loads headers row of
        Inl e \<Rightarrow> Inl e
      | Inr None \<Rightarrow> parse_rows loads headers rows permits_on_page
      | Inr (Some permit_data) \<Rightarrow> parse_rows loads headers rows (permits_on_page @ [permit_data]))"

text \<open>Lines 39 to 44: \<open>headers[0] = ...\<close> raises \<open>IndexError\<close> on an empty list.\<close>

definition table_headers :: "node \<Rightarrow> exn + string list" where
  "table_headers header_row =
     (case map (\<lambda>th. py_strip (text_of th)) (find_all ''th'' header_row) of
        [] \<Rightarrow> Inl IndexError
      | h # hs \<Rightarrow> Inr (''API NO.'' # ''PlatLink'' # hs))"

definition parse_results_table :: "(string \<Rightarrow> pyval option) \<Rightarrow> node \<Rightarrow> exn + permit list" where
  "parse_results_table loads soup =
     (case find_table soup of
        None \<Rightarrow> Inr []
      | Some results_table \<Rightarrow>
          (case find_first ''tbody'' results_table of
             None \<Rightarrow> Inr []
           | Some table_body \<Rightarrow>
               (let rows = find_all_direct ''tr'' table_body in
                if length rows < 3 then Inr []
                else (case table_headers (rows ! 1) of
                        Inl e \<Rightarrow> Inl e
                      | Inr headers \<Rightarrow> parse_rows loads headers (drop 2 rows) []))))"

section \<open>The outside world\<close>

text \<open>
  Both drivers talk to a browser through the automation library and the orchestrator
  also to the file system. The model passes a world \<open>'w\<close> through every such call: a
  call returns the exception it raised, if any, together with the world after it. A
  bounded wait that times out is a call that raises. \<open>cmd\<close> lists the awaited calls
  whose result the code does not look at, with the arguments the code computes.
\<close>

datatype cmd =
    StartPlaywright
  | Launch bool
  | NewContext
  | NewPage
  | Goto string
  | GotoNaN
  | SelectOption string "string list"
  | Fill string string
  | Click string
  | WaitForSelector string
  | WaitForLoadState string
  | WaitFirstVisible string
  | WaitVisible string
  | ScrollIntoView string
  | ExpectDownloadClick string
  | SaveAs string
  | Screenshot string
  | Makedirs string
  | CloseBrowser
  | StopPlaywright

text \<open>
  \<open>page_soup\<close> is \<open>page.content()\<close> followed by \<open>BeautifulSoup(content, 'html.parser')\<close>,
  \<open>locator_count\<close> is \<open>locator.count()\<close>, \<open>evaluate_all\<close> the list of \<open>recordnumber\<close>
  attributes read off the located elements, \<open>path_exists\<close> is \<open>os.path.exists\<close>.
\<close>

record 'w env =
  run :: "cmd \<Rightarrow> 'w \<Rightarrow> exn option \<times> 'w"
  page_soup :: "'w \<Rightarrow> (exn + node) \<times> 'w"
  locator_count :: "string \<Rightarrow> 'w \<Rightarrow> (exn + nat) \<times> 'w"
  evaluate_all :: "string \<Rightarrow> 'w \<Rightarrow> (exn + string list) \<times> 'w"
  path_exists :: "string \<Rightarrow> 'w \<Rightarrow> bool"

text \<open>Consecutive awaited calls: the first exception ends the sequence.\<close>

fun run_all :: "'w env \<Rightarrow> cmd list \<Rightarrow> 'w \<Rightarrow> exn option \<times> 'w" where
  "run_all env [] w = (None, w)"
| "run_all env (c # cs) w =
     (case run env c w of
        (Some e, w') \<Rightarrow> (Some e, w')
      | (None, w') \<Rightarrow> run_all env cs w')"

definition dq :: string where
  "dq = [CHR 0x22]"

section \<open>Search session driver\<close>

record config =
  counties :: "string list"
  date_range :: "(string \<times> string) list"

definition RRC_URL :: string where
  "RRC_URL = ''https://webapps2.rrc.texas.gov/EWA/drillingPermitsQueryAction.do''"

definition get_county_codes :: "(string \<times> string) list" where
  "get_county_codes =
     [(''ANDREWS'', ''003''), (''ECTOR'', ''135''), (''MIDLAND'', ''329''), (''MARTIN'', ''317''),
      (''HOWARD'', ''227''), (''GLASSCOCK'', ''173''), (''REAGAN'', ''383''), (''UPTON'', ''461''),
      (''CRANE'', ''103''), (''WARD'', ''475''), (''WINKLER'', ''495''), (''LOVING'', ''301''),
      (''REEVES'', ''389''), (''PECOS'', ''371'')]"

definition selected_county_codes :: "string list \<Rightarrow> string list" where
  "selected_county_codes cs = List.map_filter (map_of get_county_codes) cs"

definition county_select :: string where
  "county_select = ''select[name='' @ dq @ ''searchArgs.countyCodeHndlr.selectedCodes'' @ dq @ '']''"

definition date_from_input :: string where
  "date_from_input = ''input[name='' @ dq @ ''searchArgs.approvedDtFromHndlr.inputValue'' @ dq @ '']''"

definition date_to_input :: string where
  "date_to_input = ''input[name='' @ dq @ ''searchArgs.approvedDtToHndlr.inputValue'' @ dq @ '']''"

definition submit_button :: string where
  "submit_button = ''input[type='' @ dq @ ''submit'' @ dq @ ''][value='' @ dq @ ''Submit'' @ dq @ '']''"

definition next_link :: string where
  "next_link = ''a:has-text('' @ dq @ ''[Next>]'' @ dq @ '')''"

text \<open>
  Lines 110 to 131, the \<open>while True\<close> loop. It ends at a page without records, at a page
  without a next link, or at an exception; nothing else bounds it, so the model is a
  partial function and \<open>None\<close> is the run that never leaves the loop. The result carries
  the exception that left the loop, if any, the records accumulated so far and the world.
\<close>

partial_function (option) page_loop ::
  "(string \<Rightarrow> pyval option) \<Rightarrow> 'w env \<Rightarrow> permit list \<Rightarrow> 'w \<Rightarrow> (exn option \<times> permit list \<times> 'w) option" where
  "page_loop loads env all_permits_data w =
     (case page_soup env w of
        (Inl e, w1) \<Rightarrow> Some (Some e, all_permits_data, w1)
      | (Inr soup, w1) \<Rightarrow>
          (case parse_results_table loads soup of
             Inl e \<Rightarrow> Some (Some e, all_permits_data, w1)
           | Inr permits_on_page \<Rightarrow>
               if permits_on_page = [] then Some (None, all_permits_data, w1)
               else (case locator_count env next_link w1 of
                       (Inl e, w2) \<Rightarrow> Some (Some e, all_permits_data @ permits_on_page, w2)
                     | (Inr k, w2) \<Rightarrow>
                         if k > 0 then
                           (case run_all env [Click next_link, WaitForLoadState ''networkidle''] w2 of
                              (Some e, w3) \<Rightarrow> Some (Some e, all_permits_data @ permits_on_page, w3)
                            | (None, w3) \<Rightarrow> page_loop loads env (all_permits_data @ permits_on_page) w3)
                         else Some (None, all_permits_data @ permits_on_page, w2))))"

declare page_loop.simps [code]

text \<open>
  Lines 96 to 131, the body of the \<open>try\<close>. \<open>config['date_range']['from']\<close> raises
  \<open>KeyError\<close> when the key is missing, after the county filter has been set.
\<close>

definition search_steps ::
  "(string \<Rightarrow> pyval option) \<Rightarrow> 'w env \<Rightarrow> config \<Rightarrow> string list \<Rightarrow> 'w \<Rightarrow> (exn option \<times> permit list \<times> 'w) option" where
  "search_steps loads env cfg selected w =
     (case run_all env [Goto RRC_URL, SelectOption county_select selected] w of
        (Some e, w1) \<Rightarrow> Some (Some e, [], w1)
      | (None, w1) \<Rightarrow>
          (case map_of (date_range cfg) ''from'' of
             None \<Rightarrow> Some (Some KeyError, [], w1)
           | Some date_from \<Rightarrow>
               (case run env (Fill date_from_input date_from) w1 of
                  (Some e, w2) \<Rightarrow> Some (Some e, [], w2)
                | (None, w2) \<Rightarrow>
                    (case map_of (date_range cfg) ''to'' of
                       None \<Rightarrow> Some (Some KeyError, [], w2)
                     | Some date_to \<Rightarrow>
                         (case run_all env [Fill date_to_input date_to, Click submit_button,
                                            WaitForSelector ''table.DataGrid''] w2 of
                            (Some e, w3) \<Rightarrow> Some (Some e, [], w3)
                          | (None, w3) \<Rightarrow> page_loop loads env [] w3)))))"

text \<open>
  Lines 133 to 138 and the exit of the \<open>async with\<close> block. The handler takes the
  screenshot; \<open>finally\<close> closes the browser; leaving the block stops the automation
  library. An exception raised by a later one of these replaces an earlier one.
\<close>

definition finish_search :: "'w env \<Rightarrow> exn option \<Rightarrow> 'w \<Rightarrow> exn option \<times> 'w" where
  "finish_search env raised w =
     (case (case raised of None \<Rightarrow> (None, w)
                         | Some e \<Rightarrow> run env (Screenshot ''error_screenshot.png'') w) of
        (r_handler, w1) \<Rightarrow>
          (case run env CloseBrowser w1 of
             (r_close, w2) \<Rightarrow>
               (case run env StopPlaywright w2 of
                  (r_stop, w3) \<Rightarrow>
                    ((case r_stop of Some e \<Rightarrow> Some e
                      | None \<Rightarrow> (case r_close of Some e \<Rightarrow> Some e | None \<Rightarrow> r_handler)), w3))))"

text \<open>
  \<open>scrape_permits\<close>. The result is the exception that reaches the caller or the rows of
  the returned table, with the world after the call; \<open>None\<close> is a page walk that never
  ends. An exception of \<open>launch\<close> or \<open>new_page\<close> is raised outside the \<open>try\<close>.
\<close>

definition scrape_permits ::
  "(string \<Rightarrow> pyval option) \<Rightarrow> 'w env \<Rightarrow> config \<Rightarrow> 'w \<Rightarrow> ((exn + permit list) \<times> 'w) option" where
  "scrape_permits loads env cfg w =
     (let selected = selected_county_codes (counties cfg) in
      if selected = [] then Some (Inr [], w)
      else (case run env StartPlaywright w of
              (Some e, w0) \<Rightarrow> Some (Inl e, w0)
            | (None, w0) \<Rightarrow>
                (case run_all env [Launch True, NewPage] w0 of
                   (Some e, w1) \<Rightarrow>
                     (case run env StopPlaywright w1 of
                        (Some e', w2) \<Rightarrow> Some (Inl e', w2)
                      | (None, w2) \<Rightarrow> Some (Inl e, w2))
                 | (None, w1) \<Rightarrow>
                     (case search_steps loads env cfg selected w1 of
                        None \<Rightarrow> None
                      | Some (raised, all_permits_data, w2) \<Rightarrow>
                          (case finish_search env raised w2 of
                             (Some e, w3) \<Rightarrow> Some (Inl e, w3)
                           | (None, w3) \<Rightarrow> Some (Inr all_permits_data, w3))))))"

section \<open>Plat retrieval orchestrator\<close>

text \<open>
  A row is the series that \<open>df.iterrows()\<close> yields: it has a cell for every column of
  the table, so a key that a row lacks is a column that the table does not have, and
  \<open>row.get\<close> then gives its default. A cell is a string, or \<open>NaN\<close> where the table has
  the column and the record it was built from had no such field. \<open>NaN\<close> is a float: it
  is truthy, an f-string prints it as \<open>nan\<close>, and \<open>os.path.join\<close> raises \<open>TypeError\<close>
  on it. \<open>path_join\<close> is \<open>os.path.join\<close> on POSIX.
\<close>

datatype cell = NaN | Str string

type_synonym row = "(string \<times> cell) list"

definition path_join :: "string \<Rightarrow> string \<Rightarrow> string" where
  "path_join a b =
     (if b \<noteq> [] \<and> hd b = CHR ''/'' then b
      else if a = [] \<or> last a = CHR ''/'' then a @ b
      else a @ ''/'' @ b)"

definition falsy :: "cell option \<Rightarrow> bool" where
  "falsy v = (case v of None \<Rightarrow> True | Some NaN \<Rightarrow> False | Some (Str s) \<Rightarrow> s = [])"

fun cell_str :: "cell \<Rightarrow> string" where
  "cell_str NaN = ''nan''"
| "cell_str (Str s) = s"

definition action_menu :: string where
  "action_menu = ''.showActionMenu''"

definition action_button :: "string \<Rightarrow> string" where
  "action_button record_num = ''.showActionMenu[recordnumber='' @ dq @ record_num @ dq @ '']''"

definition download_well_log :: string where
  "download_well_log = ''#imageMenu a:has-text('' @ dq @ ''Download Well Log'' @ dq @ '')''"

definition download_link :: string where
  "download_link = ''a.image.download, a.download''"

text \<open>Lines 195 to 225: one pass of the inner loop per record number.\<close>

fun download_documents :: "'w env \<Rightarrow> string \<Rightarrow> string \<Rightarrow> string list \<Rightarrow> 'w \<Rightarrow> exn option \<times> 'w" where
  "download_documents env download_dir api_no [] w = (None, w)"
| "download_documents env download_dir api_no (record_num # rest) w =
     (case run_all env
             [ScrollIntoView (action_button record_num),
              WaitVisible (action_button record_num),
              Click (action_button record_num),
              WaitVisible ''#imageMenu'',
              Click download_well_log,
              WaitVisible download_link,
              ExpectDownloadClick download_link,
              SaveAs (path_join download_dir (api_no @ ''_'' @ record_num @ ''.tif'')),
              Click ''#closeDoc''] w of
        (Some e, w') \<Rightarrow> (Some e, w')
      | (None, w') \<Rightarrow> download_documents env download_dir api_no rest w')"

text \<open>
  Lines 182 to 225, the body of the \<open>try\<close> for one record. \<open>page.goto\<close> is called with
  the cell of the plat link; what the library does with \<open>NaN\<close> is the world's answer to
  \<open>GotoNaN\<close>.
\<close>

fun goto :: "cell \<Rightarrow> cmd" where
  "goto NaN = GotoNaN"
| "goto (Str url) = Goto url"

definition retrieve :: "'w env \<Rightarrow> cell \<Rightarrow> string \<Rightarrow> string \<Rightarrow> 'w \<Rightarrow> exn option \<times> 'w" where
  "retrieve env plat_link download_dir api_no w =
     (case run_all env [goto plat_link, WaitFirstVisible action_menu] w of
        (Some e, w1) \<Rightarrow> (Some e, w1)
      | (None, w1) \<Rightarrow>
          (case evaluate_all env action_menu w1 of
             (Inl e, w2) \<Rightarrow> (Some e, w2)
           | (Inr record_numbers, w2) \<Rightarrow>
               download_documents env download_dir api_no record_numbers w2))"

text \<open>
  Line 163, \<open>row.get('County', 'UnknownCounty')\<close>: the sentinel is the default for a
  table without a \<open>County\<close> column; a row of a table that has the column gives its
  cell, \<open>NaN\<close> included. Line 171 joins the directory and raises \<open>TypeError\<close> on \<open>NaN\<close>.
\<close>

definition county_of :: "row \<Rightarrow> cell" where
  "county_of row = (case map_of row ''County'' of Some c \<Rightarrow> c | None \<Rightarrow> Str ''UnknownCounty'')"

definition download_dir_of :: "row \<Rightarrow> exn + string" where
  "download_dir_of row =
     (case county_of row of
        NaN \<Rightarrow> Inl TypeError
      | Str county \<Rightarrow> Inr (path_join (path_join ''data'' ''plat_files'') county))"

text \<open>
  Lines 160 to 229, the loop over the rows, with \<open>plat_file_paths\<close> as accumulator.
  \<open>os.path.join\<close> and \<open>os.makedirs\<close> are outside the \<open>try\<close>: their exception ends
  the whole call. The \<open>except\<close> branch appends the empty path; the branch in which
  \<open>retrieve\<close> raises nothing appends nothing, as in the source.
\<close>

fun download_rows :: "'w env \<Rightarrow> row list \<Rightarrow> string list \<Rightarrow> 'w \<Rightarrow> (exn + string list) \<times> 'w" where
  "download_rows env [] plat_file_paths w = (Inr plat_file_paths, w)"
| "download_rows env (row # rows) plat_file_paths w =
     (let plat_link = map_of row ''PlatLink'';
          api_no = map_of row ''API NO.''
      in if falsy plat_link \<or> falsy api_no
         then download_rows env rows (plat_file_paths @ ['''']) w
         else (case download_dir_of row of
                 Inl e \<Rightarrow> (Inl e, w)
               | Inr download_dir \<Rightarrow>
                   (case run env (Makedirs download_dir) w of
                      (Some e, w1) \<Rightarrow> (Inl e, w1)
                    | (None, w1) \<Rightarrow>
                        (let file_path = path_join download_dir (cell_str (the api_no) @ ''.tif'') in
                         if path_exists env file_path w1
                         then download_rows env rows (plat_file_paths @ [file_path]) w1
                         else (case retrieve env (the plat_link) download_dir
                                      (cell_str (the api_no)) w1 of
                                 (Some e, w2) \<Rightarrow> download_rows env rows (plat_file_paths @ ['''']) w2
                               | (None, w2) \<Rightarrow> download_rows env rows plat_file_paths w2)))))"

text \<open>
  Line 233, \<open>df['PlatFilePath'] = plat_file_paths\<close>: the table library raises
  \<open>ValueError\<close> unless the list has one entry per row.
\<close>

definition set_column :: "string \<Rightarrow> row list \<Rightarrow> string list \<Rightarrow> exn + row list" where
  "set_column name df vs =
     (if length vs \<noteq> length df then Inl ValueError
      else Inr (map (\<lambda>(r, v). AList.update name (Str v) r) (zip df vs)))"

text \<open>
  \<open>download_plat_files\<close>: the exception that reaches the caller or the table with the
  new column, and the world after the call. After an exception inside the
  \<open>async with\<close> block \<open>browser.close()\<close> is not reached; leaving the block always stops
  the automation library.
\<close>

definition download_plat_files :: "'w env \<Rightarrow> row list \<Rightarrow> 'w \<Rightarrow> (exn + row list) \<times> 'w" where
  "download_plat_files env df w =
     (case run env StartPlaywright w of
        (Some e, w0) \<Rightarrow> (Inl e, w0)
      | (None, w0) \<Rightarrow>
          (case (case run_all env [Launch False, NewContext, NewPage] w0 of
                   (Some e, w1) \<Rightarrow> (Inl e, w1)
                 | (None, w1) \<Rightarrow>
                     (case download_rows env df [] w1 of
                        (Inl e, w2) \<Rightarrow> (Inl e, w2)
                      | (Inr plat_file_paths, w2) \<Rightarrow>
                          (case run env CloseBrowser w2 of
                             (Some e, w3) \<Rightarrow> (Inl e, w3)
                           | (None, w3) \<Rightarrow> (Inr plat_file_paths, w3)))) of
             (r, w4) \<Rightarrow>
               (case run env StopPlaywright w4 of
                  (Some e, w5) \<Rightarrow> (Inl e, w5)
                | (None, w5) \<Rightarrow>
                    (case r of
                       Inl e \<Rightarrow> (Inl e, w5)
                     | Inr plat_file_paths \<Rightarrow> (set_column ''PlatFilePath'' df plat_file_paths, w5)))))"

section \<open>Example pages, rows and a scripted world\<close>

text \<open>
  \<open>loads_stub\<close> agrees with \<open>json.loads\<close> on the option values of the example pages:
  two objects with a \<open>url\<close>, the number \<open>5\<close>, and the text \<open>not json\<close>, on which
  \<open>json.loads\<close> raises \<open>JSONDecodeError\<close>.
\<close>

definition url_json :: "string \<Rightarrow> string" where
  "url_json u = ''{'' @ dq @ ''url'' @ dq @ '': '' @ dq @ u @ dq @ ''}''"

definition loads_stub :: "string \<Rightarrow> pyval option" where
  "loads_stub s =
     (if s = url_json ''http://docs/1'' then Some (PDict [(''url'', PStr ''http://docs/1'')])
      else if s = url_json ''http://docs/2'' then Some (PDict [(''url'', PStr ''http://docs/2'')])
      else if s = ''5'' then Some (PInt 5)
      else None)"

definition tbody_of :: "node list \<Rightarrow> node" where
  "tbody_of rows = Tag ''tbody'' [] rows"

definition table_of :: "node list \<Rightarrow> node" where
  "table_of rows = Tag ''table'' [(''class'', ''DataGrid'')] [tbody_of rows]"

definition results_page :: "node list \<Rightarrow> node" where
  "results_page rows = Tag ''[document]'' [] [table_of rows]"

definition blank_row :: node where
  "blank_row = Tag ''tr'' [] []"

definition header_row :: node where
  "header_row =
     Tag ''tr'' []
       [Tag ''th'' [] [NavigableString ''API NO.''],
        Tag ''th'' [] [NavigableString ''District''],
        Tag ''th'' [] [NavigableString ''County'']]"

definition images_option :: "string \<Rightarrow> node" where
  "images_option v = Tag ''option'' [(''value'', v)] [NavigableString ''Images'']"

definition select_of :: "node list \<Rightarrow> node" where
  "select_of options = Tag ''select'' [] options"

definition first_cell :: "string \<Rightarrow> node list \<Rightarrow> node" where
  "first_cell api options = Tag ''td'' [] [Tag ''a'' [] [NavigableString api], select_of options]"

definition text_cell :: "string \<Rightarrow> node" where
  "text_cell t = Tag ''td'' [] [NavigableString t]"

definition data_row :: "string \<Rightarrow> node list \<Rightarrow> string list \<Rightarrow> node" where
  "data_row api options cells = Tag ''tr'' [] (first_cell api options # map text_cell cells)"

definition site_headers :: "string list" where
  "site_headers = [''API NO.'', ''PlatLink'', ''District'', ''County'']"

definition page_header_only :: node where
  "page_header_only = results_page [blank_row, header_row]"

definition row_short :: node where
  "row_short = data_row ''4200312345'' [] [''08'']"

definition page_short_row :: node where
  "page_short_row = results_page [blank_row, header_row, row_short]"

definition row_good_then_bad :: node where
  "row_good_then_bad =
     data_row ''4200312345''
       [images_option (url_json ''http://docs/1''), images_option ''not json'']
       [''08'', ''ANDREWS'']"

definition page_good_then_bad :: node where
  "page_good_then_bad = results_page [blank_row, header_row, row_good_then_bad]"

definition row_bad_only :: node where
  "row_bad_only = data_row ''4200312346'' [images_option ''not json''] [''08'', ''ECTOR'']"

definition row_three_options :: node where
  "row_three_options =
     data_row ''4200312347''
       [images_option (url_json ''http://docs/1''), images_option (url_json ''http://docs/2''),
        images_option ''not json'']
       [''08'', ''MIDLAND'']"

definition page_two_records :: node where
  "page_two_records = results_page [blank_row, header_row, row_bad_only, row_three_options]"

text \<open>
  The scripted world records every call in \<open>log\<close>. \<open>fails\<close> chooses the calls that
  raise. The search site is a list of result pages, \<open>Click next_link\<close> turning the page;
  the document viewer is a table from plat link to the record numbers its page shows;
  \<open>SaveAs\<close> creates the file it names, and a path exists when it is in \<open>files\<close>.
\<close>

record stub_world =
  log :: "cmd list"
  files :: "string list"
  location :: string
  page_no :: nat

definition stub_run :: "(cmd \<Rightarrow> bool) \<Rightarrow> cmd \<Rightarrow> stub_world \<Rightarrow> exn option \<times> stub_world" where
  "stub_run fails c w =
     (if fails c then (Some (SessionError ''scripted failure''), w\<lparr>log := log w @ [c]\<rparr>)
      else (case c of
              Goto u \<Rightarrow> (None, w\<lparr>log := log w @ [c], location := u\<rparr>)
            | Click s \<Rightarrow>
                (None, w\<lparr>log := log w @ [c],
                          page_no := (if s = next_link then Suc (page_no w) else page_no w)\<rparr>)
            | SaveAs p \<Rightarrow> (None, w\<lparr>log := log w @ [c], files := files w @ [p]\<rparr>)
            | _ \<Rightarrow> (None, w\<lparr>log := log w @ [c]\<rparr>)))"

definition stub_env :: "(cmd \<Rightarrow> bool) \<Rightarrow> node list \<Rightarrow> (string \<times> string list) list \<Rightarrow> stub_world env" where
  "stub_env fails pages viewer =
     \<lparr> run = stub_run fails,
       page_soup = (\<lambda>w. if page_no w < length pages then (Inr (pages ! page_no w), w)
                        else (Inl (SessionError ''no such page''), w)),
       locator_count = (\<lambda>s w. (Inr (if Suc (page_no w) < length pages then 1 else 0), w)),
       evaluate_all = (\<lambda>s w. (Inr (case map_of viewer (location w) of Some ns \<Rightarrow> ns | None \<Rightarrow> []), w)),
       path_exists = (\<lambda>p w. p \<in> set (files w)) \<rparr>"

definition fresh :: stub_world where
  "fresh = \<lparr> log = [], files = [], location = [], page_no = 0 \<rparr>"

definition never :: "cmd \<Rightarrow> bool" where
  "never c = False"

definition viewer :: "(string \<times> string list) list" where
  "viewer = [(''http://docs/1'', [''1'']), (''http://docs/2'', [''1'', ''2''])]"

definition navigations :: "stub_world \<Rightarrow> cmd list" where
  "navigations w = filter (\<lambda>c. case c of Goto u \<Rightarrow> True | _ \<Rightarrow> False) (log w)"

definition row_a :: row where
  "row_a =
     [(''API NO.'', Str ''4200312345''), (''PlatLink'', Str ''http://docs/1''),
      (''County'', Str ''ANDREWS'')]"

definition row_b :: row where
  "row_b =
     [(''API NO.'', Str ''4200312346''), (''PlatLink'', Str ''http://docs/2''),
      (''County'', Str ''ECTOR'')]"

definition andrews_config :: config where
  "andrews_config =
     \<lparr> counties = [''ANDREWS''],
       date_range = [(''from'', ''01/01/2024''), (''to'', ''01/31/2024'')] \<rparr>"

definition world_with_file :: stub_world where
  "world_with_file = fresh\<lparr>files := [''data/plat_files/ANDREWS/4200312345.tif'']\<rparr>"

definition second_link_fails :: "cmd \<Rightarrow> bool" where
  "second_link_fails c = (c = Goto ''http://docs/2'')"

definition next_fails :: "cmd \<Rightarrow> bool" where
  "next_fails c = (c = Click next_link)"

definition next_and_screenshot_fail :: "cmd \<Rightarrow> bool" where
  "next_and_screenshot_fail c = (c = Click next_link \<or> c = Screenshot ''error_screenshot.png'')"

definition two_pages :: "node list" where
  "two_pages = [page_two_records, page_header_only]"

definition two_records :: "permit list" where
  "two_records =
     [[(''API NO.'', PStr ''4200312346''), (''PlatLink'', PStr ''''),
       (''District'', PStr ''08''), (''County'', PStr ''ECTOR'')],
      [(''API NO.'', PStr ''4200312347''), (''PlatLink'', PStr ''http://docs/2''),
       (''District'', PStr ''08''), (''County'', PStr ''MIDLAND'')]]"

section \<open>Notions of the specification\<close>

text \<open>
  An option counts for the plat link when its visible text contains \<open>Images\<close> and its
  \<open>value\<close> attribute is present and decodes as JSON; \<open>url_from\<close> is what
  \<open>.get('url', '')\<close> then reads from it. \<open>last_images_url\<close> is the url from the last
  such option in document order, and the initial empty link when there is none.
\<close>

definition decodes :: "(string \<Rightarrow> pyval option) \<Rightarrow> node \<Rightarrow> bool" where
  "decodes loads option =
     (py_in ''Images'' (text_of option) \<and>
      (case attr option ''value'' of None \<Rightarrow> False | Some v \<Rightarrow> loads v \<noteq> None))"

definition url_from :: "(string \<Rightarrow> pyval option) \<Rightarrow> node \<Rightarrow> pyval" where
  "url_from loads option =
     (case attr option ''value'' of
        None \<Rightarrow> PStr ''''
      | Some v \<Rightarrow> (case loads v of Some (PDict d) \<Rightarrow> dict_get d ''url'' (PStr '''') | _ \<Rightarrow> PStr ''''))"

definition last_images_url :: "(string \<Rightarrow> pyval option) \<Rightarrow> node list \<Rightarrow> pyval \<Rightarrow> pyval" where
  "last_images_url loads options dflt =
     (case rev (filter (decodes loads) options) of [] \<Rightarrow> dflt | option # _ \<Rightarrow> url_from loads option)"

text \<open>
  An option gives no link when its \<open>value\<close> attribute is missing, is not valid JSON, or
  decodes to an object without the key \<open>url\<close>.
\<close>

definition gives_no_link :: "(string \<Rightarrow> pyval option) \<Rightarrow> node \<Rightarrow> bool" where
  "gives_no_link loads option =
     (case attr option ''value'' of
        None \<Rightarrow> True
      | Some v \<Rightarrow> (case loads v of None \<Rightarrow> True
                               | Some (PDict d) \<Rightarrow> map_of d ''url'' = None
                               | Some _ \<Rightarrow> False))"

section \<open>Properties of the parser\<close>

text \<open>
  C4. A page whose results table is present and whose table body has fewer than three
  direct row children parses to the empty record sequence, not to an error.
\<close>

theorem parse_fewer_than_three_rows:
  assumes "find_table soup = Some results_table"
    and "find_first ''tbody'' results_table = Some table_body"
    and "length (find_all_direct ''tr'' table_body) < 3"
  shows "parse_results_table loads soup = Inr []"
  using assms by (simp add: parse_results_table_def)

theorem parse_fewer_than_three_rows_witness:
  "length (find_all_direct ''tr'' (tbody_of [blank_row, header_row])) < 3
   \<and> parse_results_table loads_stub page_header_only = Inr []"
proof -
  have table: "find_table page_header_only = Some (table_of [blank_row, header_row])"
    by code_simp
  have body: "find_first ''tbody'' (table_of [blank_row, header_row])
      = Some (tbody_of [blank_row, header_row])"
    by code_simp
  have few: "length (find_all_direct ''tr'' (tbody_of [blank_row, header_row])) < 3"
    by code_simp
  from parse_fewer_than_three_rows [OF table body few] few show ?thesis
    by simp
qed

text \<open>
  C2. The specification has a page with a results table never make the parser raise. The
  row \<open>row_short\<close> has two cells under a header row of three header cells; line 71 reads
  \<open>cols[2]\<close> and the parser ends in \<open>IndexError\<close>.
\<close>

theorem short_row_raises:
  "length (find_all ''th'' header_row) = 3
   \<and> length (find_all ''td'' row_short) = 2
   \<and> find_table page_short_row = Some (table_of [blank_row, header_row, row_short])
   \<and> parse_results_table loads_stub page_short_row = Inl IndexError"
  by code_simp

subsection \<open>The plat link of a row\<close>

lemma last_images_url_Cons:
  "last_images_url loads (option # rest) dflt =
     last_images_url loads rest (if decodes loads option then url_from loads option else dflt)"
  by (simp add: last_images_url_def split: list.splits)

lemma scan_options_last:
  "scan_options loads options plat_link = Inr v \<Longrightarrow> v = last_images_url loads options plat_link"
proof (induction options arbitrary: plat_link)
  case Nil
  then show ?case by (simp add: last_images_url_def)
next
  case (Cons option rest)
  show ?case
  proof (cases "decodes loads option")
    case False
    then have "scan_options loads (option # rest) plat_link = scan_options loads rest plat_link"
      by (auto simp: decodes_def split: option.splits)
    with Cons False show ?thesis by (simp add: last_images_url_Cons)
  next
    case True
    then obtain v0 j where v0: "attr option ''value'' = Some v0" "loads v0 = Some j"
      "py_in ''Images'' (text_of option)"
      by (auto simp: decodes_def split: option.splits)
    with Cons.prems obtain d where d: "j = PDict d"
      by (cases j) auto
    with v0 have "scan_options loads (option # rest) plat_link =
        scan_options loads rest (url_from loads option)"
      by (simp add: url_from_def)
    with Cons True show ?thesis by (simp add: last_images_url_Cons)
  qed
qed

lemma scan_options_no_link:
  assumes "\<forall>option \<in> set options. py_in ''Images'' (text_of option) \<longrightarrow> gives_no_link loads option"
  shows "scan_options loads options (PStr '''') = Inr (PStr '''')"
  using assms
proof (induction options)
  case Nil
  then show ?case by simp
next
  case (Cons option rest)
  then have rest: "scan_options loads rest (PStr '''') = Inr (PStr '''')"
    by simp
  show ?case
  proof (cases "py_in ''Images'' (text_of option)")
    case False
    with rest show ?thesis by simp
  next
    case True
    with Cons.prems have "gives_no_link loads option" by simp
    with True rest show ?thesis
      by (auto simp: gives_no_link_def dict_get_def split: option.splits pyval.splits)
  qed
qed

lemma fill_cells_other:
  "fill_cells cols i hs d = Inr d' \<Longrightarrow> k \<notin> set hs \<Longrightarrow> map_of d' k = map_of d k"
  by (induction hs arbitrary: i d) (auto simp: update_conv split: if_splits)

lemma fill_cells_enough:
  "i + length hs \<le> length cols \<Longrightarrow> \<exists>d'. fill_cells cols i hs d = Inr d'"
  by (induction hs arbitrary: i d) auto

text \<open>
  C5. As stated the property fails: in \<open>row_good_then_bad\<close> the selection control has an
  \<open>Images\<close> option whose value is not valid JSON, and the record's plat link is not
  empty, because an earlier option gave one.
\<close>

theorem undecodable_option_beside_link:
  "images_option ''not json'' \<in> set (find_all ''option'' row_good_then_bad)
   \<and> py_in ''Images'' (text_of (images_option ''not json''))
   \<and> attr (images_option ''not json'') ''value'' = Some ''not json''
   \<and> loads_stub ''not json'' = None
   \<and> parse_results_table loads_stub page_good_then_bad =
       Inr [[(''API NO.'', PStr ''4200312345''), (''PlatLink'', PStr ''http://docs/1''),
             (''District'', PStr ''08''), (''County'', PStr ''ANDREWS'')]]"
  by code_simp

text \<open>
  C5, amended. Take a data row that has a cell for every header and whose selection
  control has no \<open>Images\<close> option other than ones whose value is missing, is not valid
  JSON or decodes to an object without \<open>url\<close>, under a header row that names no column
  \<open>PlatLink\<close>. The parser does not raise on the row and returns a record for it whose
  plat link is the empty string.
\<close>

theorem undecodable_options_leave_link_empty:
  assumes "find_all ''td'' row = c0 # cs"
    and "length (drop 2 headers) \<le> length cs"
    and "find_first ''select'' c0 = Some links_select"
    and "\<forall>option \<in> set (find_all ''option'' links_select).
           py_in ''Images'' (text_of option) \<longrightarrow> gives_no_link loads option"
    and "''PlatLink'' \<notin> set (drop 2 headers)"
  shows "\<exists>permit_data. parse_row loads headers row = Inr (Some permit_data)
           \<and> map_of permit_data ''PlatLink'' = Some (PStr '''')"
proof -
  let ?start = "AList.update ''PlatLink'' (PStr '''')
      (AList.update ''API NO.''
         (PStr (case find_first ''a'' c0 of Some a \<Rightarrow> py_strip (text_of a) | None \<Rightarrow> '''')) [])"
  have link: "plat_link_of loads c0 = Inr (PStr '''')"
    using assms(3) scan_options_no_link [OF assms(4)] by (simp add: plat_link_of_def)
  from assms(2) have "1 + length (drop 2 headers) \<le> length (c0 # cs)"
    by simp
  from fill_cells_enough [OF this]
  obtain permit_data where fill: "fill_cells (c0 # cs) 1 (drop 2 headers) ?start = Inr permit_data"
    by blast
  from fill_cells_other [OF fill assms(5)]
  have "map_of permit_data ''PlatLink'' = Some (PStr '''')"
    by (simp add: update_conv)
  moreover have "parse_row loads headers row = Inr (Some permit_data)"
    using assms(1) link fill by (simp add: parse_row_def)
  ultimately show ?thesis by blast
qed

theorem undecodable_options_leave_link_empty_witness:
  "parse_row loads_stub site_headers row_bad_only =
     Inr (Some [(''API NO.'', PStr ''4200312346''), (''PlatLink'', PStr ''''),
                (''District'', PStr ''08''), (''County'', PStr ''ECTOR'')])
   \<and> (\<exists>permit_data. parse_row loads_stub site_headers row_bad_only = Inr (Some permit_data)
         \<and> map_of permit_data ''PlatLink'' = Some (PStr ''''))"
proof -
  have cols: "find_all ''td'' row_bad_only =
      first_cell ''4200312346'' [images_option ''not json''] # [text_cell ''08'', text_cell ''ECTOR'']"
    by code_simp
  have enough: "length (drop 2 site_headers) \<le> length [text_cell ''08'', text_cell ''ECTOR'']"
    by code_simp
  have sel: "find_first ''select'' (first_cell ''4200312346'' [images_option ''not json''])
      = Some (select_of [images_option ''not json''])"
    by code_simp
  have opts: "find_all ''option'' (select_of [images_option ''not json'']) = [images_option ''not json'']"
    by code_simp
  have "gives_no_link loads_stub (images_option ''not json'')"
    by code_simp
  with opts have bad: "\<forall>option \<in> set (find_all ''option'' (select_of [images_option ''not json''])).
      py_in ''Images'' (text_of option) \<longrightarrow> gives_no_link loads_stub option"
    by simp
  have clash: "''PlatLink'' \<notin> set (drop 2 site_headers)"
    by (simp add: site_headers_def)
  have "parse_row loads_stub site_headers row_bad_only =
     Inr (Some [(''API NO.'', PStr ''4200312346''), (''PlatLink'', PStr ''''),
                (''District'', PStr ''08''), (''County'', PStr ''ECTOR'')])"
    by code_simp
  with undecodable_options_leave_link_empty [OF cols enough sel bad clash] show ?thesis
    by simp
qed

text \<open>
  C10. The scan does not stop at the first \<open>Images\<close> option. Whenever the parser
  returns a record for a data row with a selection control, the record's plat link is
  the url from the last \<open>Images\<close> option, in document order, whose value attribute
  decodes as JSON; options that do not decode leave the link of an earlier one in
  place. (The header row is taken to name no column \<open>PlatLink\<close>, which would
  overwrite the field.)
\<close>

theorem plat_link_is_last_decodable:
  assumes "parse_row loads headers row = Inr (Some permit_data)"
    and "find_all ''td'' row = c0 # cs"
    and "find_first ''select'' c0 = Some links_select"
    and "''PlatLink'' \<notin> set (drop 2 headers)"
  shows "map_of permit_data ''PlatLink'' =
           Some (last_images_url loads (find_all ''option'' links_select) (PStr ''''))"
proof -
  from assms(1,2,3) obtain plat_link where
    scan: "scan_options loads (find_all ''option'' links_select) (PStr '''') = Inr plat_link"
    and fill: "fill_cells (c0 # cs) 1 (drop 2 headers)
        (AList.update ''PlatLink'' plat_link (AList.update ''API NO.'' (PStr
          (case find_first ''a'' c0 of Some a \<Rightarrow> py_strip (text_of a) | None \<Rightarrow> '''')) [])) = Inr permit_data"
    by (auto simp: parse_row_def plat_link_of_def Let_def split: sum.splits)
  from fill_cells_other [OF fill assms(4)]
  have "map_of permit_data ''PlatLink'' = Some plat_link"
    by (simp add: update_conv)
  with scan_options_last [OF scan] show ?thesis by simp
qed

theorem plat_link_is_last_decodable_witness:
  "parse_row loads_stub site_headers row_three_options =
     Inr (Some [(''API NO.'', PStr ''4200312347''), (''PlatLink'', PStr ''http://docs/2''),
                (''District'', PStr ''08''), (''County'', PStr ''MIDLAND'')])
   \<and> last_images_url loads_stub
        [images_option (url_json ''http://docs/1''), images_option (url_json ''http://docs/2''),
         images_option ''not json''] (PStr '''') = PStr ''http://docs/2''"
proof -
  let ?options = "[images_option (url_json ''http://docs/1''),
      images_option (url_json ''http://docs/2''), images_option ''not json'']"
  let ?permit = "[(''API NO.'', PStr ''4200312347''), (''PlatLink'', PStr ''http://docs/2''),
      (''District'', PStr ''08''), (''County'', PStr ''MIDLAND'')]"
  have parsed: "parse_row loads_stub site_headers row_three_options = Inr (Some ?permit)"
    by code_simp
  have cols: "find_all ''td'' row_three_options =
      first_cell ''4200312347'' ?options # [text_cell ''08'', text_cell ''MIDLAND'']"
    by code_simp
  have sel: "find_first ''select'' (first_cell ''4200312347'' ?options) = Some (select_of ?options)"
    by code_simp
  have opts: "find_all ''option'' (select_of ?options) = ?options"
    by code_simp
  have clash: "''PlatLink'' \<notin> set (drop 2 site_headers)"
    by (simp add: site_headers_def)
  from plat_link_is_last_decodable [OF parsed cols sel clash] opts
  have "last_images_url loads_stub ?options (PStr '''') = PStr ''http://docs/2''"
    by simp
  with parsed show ?thesis by simp
qed

section \<open>Properties of the search session driver\<close>

lemma selected_none:
  "\<forall>c \<in> set cs. map_of get_county_codes c = None \<Longrightarrow> selected_county_codes cs = []"
  by (auto simp: selected_county_codes_def map_filter_def filter_empty_conv)

lemma selected_drop_unknown:
  "map_of get_county_codes u = None \<Longrightarrow>
     selected_county_codes (xs @ u # ys) = selected_county_codes (xs @ ys)"
  by (simp add: selected_county_codes_def map_filter_def)

lemma search_steps_counties:
  "search_steps loads env (cfg\<lparr>counties := cs\<rparr>) selected w =
   search_steps loads env cfg selected w"
proof -
  have same: "date_range (cfg\<lparr>counties := cs\<rparr>) = date_range cfg"
    by simp
  show ?thesis
    unfolding search_steps_def same ..
qed

text \<open>
  C6. When no configured county name is in the registry, \<open>scrape_permits\<close> returns the
  empty result at once and the world is the one it was called in: no call to the
  browser is made. A name that is not in the registry is dropped without error: the
  run with it is the run without it.
\<close>

theorem unresolved_counties_open_no_session:
  "((\<forall>c \<in> set (counties cfg). map_of get_county_codes c = None)
      \<longrightarrow> scrape_permits loads env cfg w = Some (Inr [], w))
   \<and> (map_of get_county_codes u = None
      \<longrightarrow> scrape_permits loads env (cfg'\<lparr>counties := xs @ u # ys\<rparr>) w
          = scrape_permits loads env (cfg'\<lparr>counties := xs @ ys\<rparr>) w)"
proof (intro conjI impI)
  assume "\<forall>c \<in> set (counties cfg). map_of get_county_codes c = None"
  then have "selected_county_codes (counties cfg) = []"
    by (rule selected_none)
  then show "scrape_permits loads env cfg w = Some (Inr [], w)"
    by (simp add: scrape_permits_def)
next
  assume "map_of get_county_codes u = None"
  then have "selected_county_codes (xs @ u # ys) = selected_county_codes (xs @ ys)"
    by (rule selected_drop_unknown)
  then show "scrape_permits loads env (cfg'\<lparr>counties := xs @ u # ys\<rparr>) w
      = scrape_permits loads env (cfg'\<lparr>counties := xs @ ys\<rparr>) w"
    unfolding scrape_permits_def search_steps_counties by simp
qed

theorem unresolved_counties_open_no_session_witness:
  "scrape_permits loads_stub (stub_env never two_pages viewer)
       (andrews_config\<lparr>counties := [''NOT_A_COUNTY'']\<rparr>) fresh = Some (Inr [], fresh)
   \<and> scrape_permits loads_stub (stub_env never two_pages viewer)
       (andrews_config\<lparr>counties := [''ANDREWS'', ''NOT_A_COUNTY'']\<rparr>) fresh
     = scrape_permits loads_stub (stub_env never two_pages viewer)
       (andrews_config\<lparr>counties := [''ANDREWS'']\<rparr>) fresh"
proof -
  have unknown: "map_of get_county_codes ''NOT_A_COUNTY'' = None"
    by (simp add: get_county_codes_def)
  then have all: "\<forall>c \<in> set (counties (andrews_config\<lparr>counties := [''NOT_A_COUNTY'']\<rparr>)).
      map_of get_county_codes c = None"
    by simp
  from unresolved_counties_open_no_session
    [where cfg = "andrews_config\<lparr>counties := [''NOT_A_COUNTY'']\<rparr>" and u = "''NOT_A_COUNTY''"
       and cfg' = andrews_config and xs = "[''ANDREWS'']" and ys = "[]"
       and loads = loads_stub and env = "stub_env never two_pages viewer" and w = fresh]
    unknown all
  show ?thesis by simp
qed

text \<open>
  C9. As stated the property fails: with two records accumulated, the click on the next
  link raises and so does the screenshot that the handler takes; the exception of the
  screenshot reaches the caller and the records are not returned.
\<close>

theorem screenshot_failure_reaches_caller:
  "map_option fst
     (search_steps loads_stub (stub_env next_and_screenshot_fail two_pages viewer) andrews_config
        (selected_county_codes (counties andrews_config))
        (snd (run_all (stub_env next_and_screenshot_fail two_pages viewer)
                [StartPlaywright, Launch True, NewPage] fresh)))
     = Some (Some (SessionError ''scripted failure''))
   \<and> map_option fst
       (scrape_permits loads_stub (stub_env next_and_screenshot_fail two_pages viewer)
          andrews_config fresh)
     = Some (Inl (SessionError ''scripted failure''))"
  by code_simp

text \<open>
  C9, amended. Let the browser have been launched and let a step inside the \<open>try\<close>
  (navigation, form fill, submit, page walk) raise, with some records accumulated.
  The exception is caught and the screenshot is attempted; if the screenshot, the
  closing of the browser and the shutdown of the automation library do not raise in
  their turn, \<open>scrape_permits\<close> returns the accumulated records.
\<close>

theorem session_failure_returns_partial:
  assumes "selected_county_codes (counties cfg) \<noteq> []"
    and "run env StartPlaywright w = (None, w0)"
    and "run_all env [Launch True, NewPage] w0 = (None, w1)"
    and "search_steps loads env cfg (selected_county_codes (counties cfg)) w1
           = Some (Some e, all_permits_data, w2)"
    and "run env (Screenshot ''error_screenshot.png'') w2 = (None, w3)"
    and "run env CloseBrowser w3 = (None, w4)"
    and "run env StopPlaywright w4 = (None, w5)"
  shows "scrape_permits loads env cfg w = Some (Inr all_permits_data, w5)"
proof -
  from assms(5,6,7) have "finish_search env (Some e) w2 = (None, w5)"
    by (simp add: finish_search_def)
  with assms(1,2,3,4) show ?thesis
    by (simp add: scrape_permits_def Let_def)
qed

theorem session_failure_returns_partial_witness:
  "map_option fst
     (search_steps loads_stub (stub_env next_fails two_pages viewer) andrews_config
        (selected_county_codes (counties andrews_config))
        (snd (run_all (stub_env next_fails two_pages viewer) [Launch True, NewPage]
                (snd (run (stub_env next_fails two_pages viewer) StartPlaywright fresh)))))
     = Some (Some (SessionError ''scripted failure''))
   \<and> map_option fst (scrape_permits loads_stub (stub_env next_fails two_pages viewer) andrews_config fresh)
     = Some (Inr two_records)"
proof -
  let ?E = "stub_env next_fails two_pages viewer"
  let ?sel = "selected_county_codes (counties andrews_config)"
  let ?w0 = "snd (run ?E StartPlaywright fresh)"
  let ?w1 = "snd (run_all ?E [Launch True, NewPage] ?w0)"
  let ?w2 = "snd (snd (the (search_steps loads_stub ?E andrews_config ?sel ?w1)))"
  let ?w3 = "snd (run ?E (Screenshot ''error_screenshot.png'') ?w2)"
  let ?w4 = "snd (run ?E CloseBrowser ?w3)"
  let ?w5 = "snd (run ?E StopPlaywright ?w4)"
  have sel: "?sel \<noteq> []"
    by code_simp
  have start: "run ?E StartPlaywright fresh = (None, ?w0)"
    by code_simp
  have launch: "run_all ?E [Launch True, NewPage] ?w0 = (None, ?w1)"
    by code_simp
  have steps: "search_steps loads_stub ?E andrews_config ?sel ?w1
      = Some (Some (SessionError ''scripted failure''), two_records, ?w2)"
    by code_simp
  have shot: "run ?E (Screenshot ''error_screenshot.png'') ?w2 = (None, ?w3)"
    by code_simp
  have close: "run ?E CloseBrowser ?w3 = (None, ?w4)"
    by code_simp
  have stop: "run ?E StopPlaywright ?w4 = (None, ?w5)"
    by code_simp
  from session_failure_returns_partial [OF sel start launch steps shot close stop]
  have returned: "map_option fst (scrape_permits loads_stub ?E andrews_config fresh)
      = Some (Inr two_records)"
    by simp
  have raised: "map_option fst (search_steps loads_stub ?E andrews_config ?sel ?w1)
      = Some (Some (SessionError ''scripted failure''))"
    by (subst steps) simp
  from raised returned show ?thesis ..
qed

section \<open>Properties of the plat retrieval orchestrator\<close>

text \<open>
  C1. The specification asks for one outcome per record. \<open>row_a\<close> has a plat link whose viewer page
  shows one record number; nothing fails, the file is saved, and the record contributes
  no entry to \<open>plat_file_paths\<close>: the list is empty for a table of one row, and the
  assignment of the column raises \<open>ValueError\<close>.
\<close>

theorem successful_record_gets_no_outcome:
  "fst (download_rows (stub_env never [] viewer) [row_a] [] fresh) = Inr []
   \<and> files (snd (download_rows (stub_env never [] viewer) [row_a] [] fresh))
       = [''data/plat_files/ANDREWS/4200312345_1.tif'']
   \<and> fst (download_plat_files (stub_env never [] viewer) [row_a] fresh) = Inl ValueError"
  by code_simp

text \<open>
  C3. The specification has a record with a single document saved as
  \<open><apiNumber>.tif\<close>. The viewer page of \<open>row_a\<close> shows the single record number \<open>1\<close>; the
  file is saved as \<open>4200312345_1.tif\<close>, the path \<open>4200312345.tif\<close> that the skip test
  looks for does not exist afterwards, and a second run navigates to the link again.
\<close>

theorem single_document_file_name:
  "map_of viewer ''http://docs/1'' = Some [''1'']
   \<and> files (snd (download_rows (stub_env never [] viewer) [row_a] [] fresh))
       = [''data/plat_files/ANDREWS/4200312345_1.tif'']
   \<and> \<not> path_exists (stub_env never [] viewer) ''data/plat_files/ANDREWS/4200312345.tif''
         (snd (download_rows (stub_env never [] viewer) [row_a] [] fresh))
   \<and> navigations (snd (download_rows (stub_env never [] viewer) [row_a] []
         (snd (download_rows (stub_env never [] viewer) [row_a] [] fresh))))
       = [Goto ''http://docs/1'', Goto ''http://docs/1'']"
  by code_simp

text \<open>
  C7. A record with a plat link, an API number and a county, whose target file
  \<open><apiNumber>.tif\<close> exists in its county directory, which the code places under
  \<open>data/plat_files\<close>, is treated as retrieved: its target path is its outcome, and the
  loop goes on to the next record in the world that \<open>os.makedirs\<close> left, with no call
  to the browser and no file saved.
\<close>

theorem existing_file_is_skipped:
  assumes "map_of row ''PlatLink'' = Some (Str plat_link)" and "plat_link \<noteq> []"
    and "map_of row ''API NO.'' = Some (Str api_no)" and "api_no \<noteq> []"
    and "map_of row ''County'' = Some (Str county)"
    and "run env (Makedirs (path_join (path_join ''data'' ''plat_files'') county)) w = (None, w1)"
    and "path_exists env
           (path_join (path_join (path_join ''data'' ''plat_files'') county) (api_no @ ''.tif'')) w1"
  shows "download_rows env (row # rows) plat_file_paths w =
         download_rows env rows
           (plat_file_paths @
              [path_join (path_join (path_join ''data'' ''plat_files'') county) (api_no @ ''.tif'')])
           w1"
proof -
  from assms(5) have "download_dir_of row = Inr (path_join (path_join ''data'' ''plat_files'') county)"
    by (simp add: download_dir_of_def county_of_def)
  with assms(1,2,3,4,6,7) show ?thesis
    by (simp add: falsy_def Let_def)
qed

theorem existing_file_is_skipped_witness:
  "download_rows (stub_env never [] viewer) [row_a] [] world_with_file
     = (Inr [''data/plat_files/ANDREWS/4200312345.tif''],
        world_with_file\<lparr>log := [Makedirs ''data/plat_files/ANDREWS'']\<rparr>)
   \<and> navigations (snd (download_rows (stub_env never [] viewer) [row_a] [] world_with_file)) = []"
proof -
  let ?E = "stub_env never [] viewer"
  let ?w1 = "world_with_file\<lparr>log := [Makedirs ''data/plat_files/ANDREWS'']\<rparr>"
  have link: "map_of row_a ''PlatLink'' = Some (Str ''http://docs/1'')"
    by code_simp
  have api: "map_of row_a ''API NO.'' = Some (Str ''4200312345'')"
    by code_simp
  have county: "map_of row_a ''County'' = Some (Str ''ANDREWS'')"
    by code_simp
  have dir: "run ?E (Makedirs (path_join (path_join ''data'' ''plat_files'') ''ANDREWS''))
      world_with_file = (None, ?w1)"
    by code_simp
  have there: "path_exists ?E
      (path_join (path_join (path_join ''data'' ''plat_files'') ''ANDREWS'')
         (''4200312345'' @ ''.tif'')) ?w1"
    by code_simp
  have path: "path_join (path_join (path_join ''data'' ''plat_files'') ''ANDREWS'')
      (''4200312345'' @ ''.tif'') = ''data/plat_files/ANDREWS/4200312345.tif''"
    by code_simp
  have quiet: "navigations ?w1 = []"
    by code_simp
  from existing_file_is_skipped [OF link _ api _ county dir there, of "[]" "[]"] path
  have "download_rows ?E [row_a] [] world_with_file
      = (Inr [''data/plat_files/ANDREWS/4200312345.tif''], ?w1)"
    by simp
  with quiet show ?thesis by simp
qed

text \<open>
  C8. The specification has the records beside a failing one receive correct outcomes.
  For \<open>row_a\<close>, which is retrieved, followed by \<open>row_b\<close>, whose navigation raises, the
  exception is caught and the empty path is appended, but it is the only entry:
  \<open>row_a\<close> has none, the empty path stands at its index, and the assignment of the
  column raises \<open>ValueError\<close>.
\<close>

theorem failure_beside_success:
  "fst (download_rows (stub_env second_link_fails [] viewer) [row_a, row_b] [] fresh) = Inr ['''']
   \<and> files (snd (download_rows (stub_env second_link_fails [] viewer) [row_a, row_b] [] fresh))
       = [''data/plat_files/ANDREWS/4200312345_1.tif'']
   \<and> navigations (snd (download_rows (stub_env second_link_fails [] viewer) [row_a, row_b] [] fresh))
       = [Goto ''http://docs/1'', Goto ''http://docs/2'']
   \<and> fst (download_plat_files (stub_env second_link_fails [] viewer) [row_a, row_b] fresh)
       = Inl ValueError"
  by code_simp

end
